theory Spec2Isabelle
  imports Complex_Main
begin

section \<open>Python values shared by the modules\<close>

text \<open>
  Python exceptions are values of the type \<open>error\<close>; a function that can raise returns
  \<open>error + 'a\<close> with \<open>Inl\<close> the exception.  Python integers are \<open>int\<close>.
\<close>

datatype error =
    FileNotFoundError string
  | ValueError string
  | KeyError string
  | ZeroDivisionError
  | IndexError
  | EncoderError
  | CalledProcessError
  | OSError
  | PermissionError
  | DecodeError

text \<open>\<open>int(x)\<close> on a float truncates towards zero.\<close>

definition py_int :: "real \<Rightarrow> int" where
  "py_int x = (if 0 \<le> x then \<lfloor>x\<rfloor> else \<lceil>x\<rceil>)"

section \<open>Floating point (IEEE 754 binary64)\<close>

text \<open>
  A Python float is kept as the real number it denotes.  Every arithmetic operation of
  the service and of the pan effect rounds its exact result to the nearest double, ties to
  even (53 significant bits, gradual underflow below \<open>2^-1022\<close>); \<open>fl\<close> is that rounding.
  Infinities and NaN are not represented: a result beyond the largest double is rounded as
  if the exponent range were unbounded.
\<close>

definition pow2 :: "int \<Rightarrow> real" where
  "pow2 e = (if 0 \<le> e then 2 ^ nat e else 1 / 2 ^ nat (- e))"

text \<open>The binary exponent of a positive number: \<open>2^e \<le> x < 2^(e+1)\<close>.\<close>

function expo :: "real \<Rightarrow> int" where
  "expo x =
     (if x \<le> 0 then 0
      else if x < 1 then expo (2 * x) - 1
      else if 2 \<le> x then expo (x / 2) + 1
      else 0)"
  by pat_completeness auto
termination
proof (relation "measure (\<lambda>x. nat \<bar>\<lfloor>log 2 x\<rfloor>\<bar>)")
  show "wf (measure (\<lambda>x. nat \<bar>\<lfloor>log 2 x\<rfloor>\<bar>))" by simp
next
  fix x :: real
  assume a: "\<not> x \<le> 0" "x < 1"
  have l: "log 2 (2 * x) = 1 + log 2 x" using a by (simp add: log_mult)
  have "log 2 x < 0" using a by simp
  then have "\<lfloor>log 2 x\<rfloor> \<le> - 1" by (simp add: floor_le_iff)
  then show "(2 * x, x) \<in> measure (\<lambda>x. nat \<bar>\<lfloor>log 2 x\<rfloor>\<bar>)"
    by (simp add: l)
next
  fix x :: real
  assume a: "\<not> x \<le> 0" "\<not> x < 1" "2 \<le> x"
  have l: "log 2 (x / 2) = log 2 x - 1" using a by (simp add: log_divide)
  have "1 \<le> log 2 x" using a by (simp add: le_log_iff)
  then have "1 \<le> \<lfloor>log 2 x\<rfloor>" by (simp add: le_floor_iff)
  then show "(x / 2, x) \<in> measure (\<lambda>x. nat \<bar>\<lfloor>log 2 x\<rfloor>\<bar>)"
    by (simp add: l)
qed

declare expo.simps [simp del]

text \<open>Rounding to the nearest integer, ties to the even one.\<close>

definition rne :: "real \<Rightarrow> int" where
  "rne r =
     (let f = \<lfloor>r\<rfloor>; d = r - of_int f
      in if d < 1 / 2 then f
         else if 1 / 2 < d then f + 1
         else if even f then f else f + 1)"

definition fl :: "real \<Rightarrow> real" where
  "fl x =
     (if x = 0 then 0
      else
        let e = max (expo \<bar>x\<bar>) (- 1022); u = pow2 (e - 52)
        in of_int (rne (x / u)) * u)"

text \<open>\<open>float(n)\<close> for an integer operand of a mixed operation, and \<open>math.pi\<close>.\<close>

definition to_float :: "int \<Rightarrow> real" where
  "to_float n = fl (of_int n)"

definition math_pi :: real where
  "math_pi = 884279719003555 / 2 ^ 48"

section \<open>Images (PIL)\<close>

text \<open>
  A PIL image is kept as the expression that built it: a decoded source picture of a given
  width and height, and the library operations \<open>resize\<close>, \<open>crop\<close> and
  \<open>ImageEnhance.Brightness(..).enhance\<close> applied to it.  \<open>crop\<close> takes the box
  (left, upper, right, lower) and returns an image of size (right - left, lower - upper).
\<close>

datatype image =
    Source int int
  | Resize image int int
  | Crop image int int int int
  | Brightness image real

fun width :: "image \<Rightarrow> int" where
  "width (Source w h) = w"
| "width (Resize im w h) = w"
| "width (Crop im l u r lo) = r - l"
| "width (Brightness im b) = width im"

fun height :: "image \<Rightarrow> int" where
  "height (Source w h) = h"
| "height (Resize im w h) = h"
| "height (Crop im l u r lo) = lo - u"
| "height (Brightness im b) = height im"

section \<open>utils/image\_effect.py\<close>

text \<open>The \<open>params\<close> dictionary; a missing key is \<open>None\<close>.\<close>

record params =
  output_size :: "(int \<times> int) option"
  fade_duration :: "real option"
  use_pan :: "bool option"
  pan_range :: "(real \<times> real) option"
  segment_index :: "int option"

text \<open>\<open>dict.get(key, default)\<close>.\<close>

definition get_or :: "'a option \<Rightarrow> 'a \<Rightarrow> 'a" where
  "get_or v d = (case v of None \<Rightarrow> d | Some x \<Rightarrow> x)"

text \<open>
  \<open>ImageEffects.fade_effect\<close>.  After the guard \<open>params['fade_duration']\<close> is present and
  positive, so neither the lookup nor the divisions can raise.
\<close>

definition fade_effect :: "image \<Rightarrow> real \<Rightarrow> real \<Rightarrow> params \<Rightarrow> image" where
  "fade_effect img time_val duration p =
     (if get_or (fade_duration p) 0 \<le> 0 then img
      else
        let fd = get_or (fade_duration p) 0;
            brightness =
              (if time_val < fd then time_val / fd
               else if duration - time_val < fd then (duration - time_val) / fd
               else 1)
        in if brightness < 1 then Brightness img brightness else img)"

text \<open>
  \<open>ImageEffects._ease_in_out_progress\<close>.  \<open>math.cos\<close> is the platform's library function
  on doubles and is a parameter.
\<close>

definition ease_in_out_progress :: "(real \<Rightarrow> real) \<Rightarrow> real \<Rightarrow> real" where
  "ease_in_out_progress mcos progress =
     fl (0.5 * fl (1 - mcos (fl (math_pi * progress))))"

text \<open>The direction choice at the head of \<open>pan_effect\<close> (the local \<open>use_horizontal\<close>).\<close>

definition use_horizontal :: "real \<Rightarrow> real \<Rightarrow> int \<Rightarrow> bool" where
  "use_horizontal h_range v_range seg_index =
     (if h_range > 0 \<and> v_range > 0 then seg_index mod 2 = 0
      else if v_range > 0 then False
      else True)"

text \<open>
  \<open>ImageEffects.pan_effect\<close>.  \<open>/\<close> is Python's true division: it raises
  \<open>ZeroDivisionError\<close> on a zero divisor and rounds the quotient (of two integers: the
  exact quotient) to a double; a product or sum with an integer operand converts it to a
  double first.  \<open>//\<close> is floor division on integers.
\<close>

definition pan_effect ::
    "(real \<Rightarrow> real) \<Rightarrow> image \<Rightarrow> real \<Rightarrow> real \<Rightarrow> params \<Rightarrow> error + image" where
  "pan_effect mcos img time_val duration p =
     (case output_size p of
        None \<Rightarrow> Inl (KeyError ''output_size'')
      | Some (output_w, output_h) \<Rightarrow>
          let (h_range, v_range) = get_or (pan_range p) (fl (3 / 10), 0);
              seg_index = get_or (segment_index p) 0;
              horizontal = use_horizontal h_range v_range seg_index
          in
          if h_range \<le> 0 \<and> v_range \<le> 0 then
            (if height img = 0 \<or> output_h = 0 then Inl ZeroDivisionError
             else
               let img_aspect = fl (real_of_int (width img) / real_of_int (height img));
                   out_aspect = fl (real_of_int output_w / real_of_int output_h)
               in
               if img_aspect > out_aspect then
                 let new_height = output_h;
                     new_width = py_int (fl (to_float new_height * img_aspect));
                     scaled_img = Resize img new_width new_height;
                     left = (new_width - output_w) div 2
                 in Inr (Crop scaled_img left 0 (left + output_w) output_h)
               else if img_aspect = 0 then Inl ZeroDivisionError
               else
                 let new_width = output_w;
                     new_height = py_int (fl (to_float new_width / img_aspect));
                     scaled_img = Resize img new_width new_height;
                     top = (new_height - output_h) div 2
                 in Inr (Crop scaled_img 0 top output_w (top + output_h)))
          else
            let img_w = width img; img_h = height img in
            if img_w = 0 \<or> img_h = 0 then Inl ZeroDivisionError
            else
              let scale_ratio =
                    (if horizontal then
                       let required_width = fl (to_float output_w * fl (1 + h_range));
                           ratio_w = fl (required_width / to_float img_w);
                           ratio_h = fl (real_of_int output_h / real_of_int img_h)
                       in max ratio_w ratio_h
                     else
                       let required_height = fl (to_float output_h * fl (1 + v_range));
                           ratio_h = fl (required_height / to_float img_h);
                           ratio_w = fl (real_of_int output_w / real_of_int img_w)
                       in max ratio_w ratio_h);
                  new_width = py_int (fl (to_float img_w * scale_ratio));
                  new_height = py_int (fl (to_float img_h * scale_ratio));
                  scaled_img = Resize img new_width new_height
              in
              if duration = 0 then Inl ZeroDivisionError
              else
                let progress = ease_in_out_progress mcos (fl (time_val / duration));
                    (x_offset, y_offset) =
                      (if horizontal then
                         let max_x_offset = width scaled_img - output_w
                         in (py_int (fl (to_float max_x_offset * progress)),
                             (height scaled_img - output_h) div 2)
                       else
                         let max_y_offset = height scaled_img - output_h
                         in ((width scaled_img - output_w) div 2,
                             py_int (fl (to_float max_y_offset * progress))))
                in Inr (Crop scaled_img x_offset y_offset
                          (x_offset + output_w) (y_offset + output_h)))"

text \<open>
  \<open>ImageEffects.apply_effects\<close>: the pan (when enabled) and then the fade, on a copy of the
  image.
\<close>

definition apply_effects ::
    "(real \<Rightarrow> real) \<Rightarrow> image \<Rightarrow> real \<Rightarrow> real \<Rightarrow> params \<Rightarrow> error + image" where
  "apply_effects mcos img time_val duration p =
     (if get_or (use_pan p) True then
        (case pan_effect mcos img time_val duration p of
           Inl e \<Rightarrow> Inl e
         | Inr panned \<Rightarrow> Inr (fade_effect panned time_val duration p))
      else Inr (fade_effect img time_val duration p))"

section \<open>Strings and paths (str, os.path on POSIX)\<close>

text \<open>
  A Python string is kept as its UTF-8 bytes, the form in which a POSIX file system stores
  a name.  \<open>utf8_decode\<close> gives the code points Python sees; a byte that does not start a
  well-formed sequence becomes the lone surrogate \<open>0xDC00 + byte\<close>, as the file-system
  decoding does.
\<close>

definition is_cont :: "nat \<Rightarrow> bool" where
  "is_cont b = (128 \<le> b \<and> b < 192)"

function utf8_decode :: "nat list \<Rightarrow> nat list" where
  "utf8_decode [] = []"
| "utf8_decode (b # bs) =
     (if b < 128 then b # utf8_decode bs
      else if 194 \<le> b \<and> b < 224 \<and> 1 \<le> length bs \<and> is_cont (bs ! 0) then
        ((b - 192) * 64 + (bs ! 0 - 128)) # utf8_decode (drop 1 bs)
      else if 224 \<le> b \<and> b < 240 \<and> 2 \<le> length bs \<and> is_cont (bs ! 0) \<and> is_cont (bs ! 1)
           \<and> (if b = 224 then 160 \<le> bs ! 0 else True)
           \<and> (if b = 237 then bs ! 0 < 160 else True) then
        ((b - 224) * 4096 + (bs ! 0 - 128) * 64 + (bs ! 1 - 128)) # utf8_decode (drop 2 bs)
      else if 240 \<le> b \<and> b < 245 \<and> 3 \<le> length bs
           \<and> is_cont (bs ! 0) \<and> is_cont (bs ! 1) \<and> is_cont (bs ! 2)
           \<and> (if b = 240 then 144 \<le> bs ! 0 else True)
           \<and> (if b = 244 then bs ! 0 < 144 else True) then
        ((b - 240) * 262144 + (bs ! 0 - 128) * 4096 + (bs ! 1 - 128) * 64 + (bs ! 2 - 128))
          # utf8_decode (drop 3 bs)
      else (56320 + b) # utf8_decode bs)"
  by pat_completeness auto
termination
  by (relation "measure length") auto

declare utf8_decode.simps [simp del]

text \<open>
  The Unicode class of a code point as far as \<open>str.isdigit\<close> and \<open>int\<close> care: a decimal
  digit with its value, another digit (a superscript two, say), or no digit.  The ASCII
  range is fixed; for the rest the Unicode database is a parameter.
\<close>

datatype digit_class = NotDigit | OtherDigit | Decimal nat

definition char_class :: "(nat \<Rightarrow> digit_class) \<Rightarrow> nat \<Rightarrow> digit_class" where
  "char_class ucd c =
     (if c < 128 then (if 48 \<le> c \<and> c \<le> 57 then Decimal (c - 48) else NotDigit)
      else ucd c)"

text \<open>\<open>str.isdigit\<close>: not empty and every character a digit.\<close>

definition isdigit :: "(nat \<Rightarrow> digit_class) \<Rightarrow> string \<Rightarrow> bool" where
  "isdigit ucd s =
     (let cs = utf8_decode (map of_char s)
      in cs \<noteq> [] \<and> list_all (\<lambda>c. char_class ucd c \<noteq> NotDigit) cs)"

text \<open>
  \<open>int(s)\<close> for a string that passed \<open>isdigit\<close>: the decimal value, or \<open>ValueError\<close> when
  a character is a digit but not a decimal one.
\<close>

definition decimal_value :: "digit_class \<Rightarrow> int option" where
  "decimal_value k =
     (case k of Decimal d \<Rightarrow> Some (int d) | OtherDigit \<Rightarrow> None | NotDigit \<Rightarrow> None)"

definition str_int :: "(nat \<Rightarrow> digit_class) \<Rightarrow> string \<Rightarrow> error + int" where
  "str_int ucd s =
     (let ds = map (\<lambda>c. decimal_value (char_class ucd c)) (utf8_decode (map of_char s))
      in if ds = [] \<or> list_ex (\<lambda>d. d = None) ds then
           Inl (ValueError (''invalid literal for int() with base 10: '' @ s))
         else Inr (foldl (\<lambda>a d. 10 * a + the d) 0 ds))"

text \<open>The decimal text an f-string gives for a non-negative integer.\<close>

definition digit_char :: "nat \<Rightarrow> char" where
  "digit_char d = ''0123456789'' ! d"

fun str_nat :: "nat \<Rightarrow> string" where
  "str_nat n =
     (if n < 10 then [digit_char n]
      else str_nat (n div 10) @ [digit_char (n mod 10)])"

declare str_nat.simps [simp del]

text \<open>\<open>os.path.join\<close> of two components.\<close>

definition join :: "string \<Rightarrow> string \<Rightarrow> string" where
  "join a b =
     (if b \<noteq> [] \<and> hd b = CHR ''/'' then b
      else if a = [] \<or> last a = CHR ''/'' then a @ b
      else a @ ''/'' @ b)"

text \<open>\<open>os.path.basename\<close>: what follows the last slash.\<close>

definition basename :: "string \<Rightarrow> string" where
  "basename p = rev (takeWhile (\<lambda>c. c \<noteq> CHR ''/'') (rev p))"

text \<open>
  \<open>os.path.dirname\<close>: what precedes the last slash, without trailing slashes unless it
  consists of slashes only.
\<close>

definition dirname :: "string \<Rightarrow> string" where
  "dirname p =
     (let head = rev (dropWhile (\<lambda>c. c \<noteq> CHR ''/'') (rev p))
      in if head \<noteq> [] \<and> \<not> list_all (\<lambda>c. c = CHR ''/'') head
         then rev (dropWhile (\<lambda>c. c = CHR ''/'') (rev head))
         else head)"

text \<open>\<open>str.rfind\<close> of a character: the last index, or -1.\<close>

definition rfind :: "char \<Rightarrow> string \<Rightarrow> int" where
  "rfind c p =
     (case filter (\<lambda>i. p ! i = c) (rev [0..<length p]) of
        [] \<Rightarrow> - 1
      | i # _ \<Rightarrow> int i)"

text \<open>
  \<open>os.path.splitext\<close>: split at the last dot of the last component, unless that
  component has only leading dots before it.
\<close>

definition splitext :: "string \<Rightarrow> string \<times> string" where
  "splitext p =
     (let sepIndex = rfind (CHR ''/'') p;
          dotIndex = rfind (CHR ''.'') p
      in if dotIndex > sepIndex \<and>
            list_ex (\<lambda>i. p ! i \<noteq> CHR ''.'') [nat (sepIndex + 1)..<nat dotIndex]
         then (take (nat dotIndex) p, drop (nat dotIndex) p)
         else (p, []))"

text \<open>\<open>str.split\<close> on a separator character.\<close>

fun splitc :: "char \<Rightarrow> string \<Rightarrow> string list" where
  "splitc c [] = [[]]"
| "splitc c (x # xs) =
     (if x = c then [] # splitc c xs
      else (case splitc c xs of [] \<Rightarrow> [[x]] | w # ws \<Rightarrow> (x # w) # ws))"

text \<open>\<open>'/'.join(comps)\<close>.\<close>

fun join_slash :: "string list \<Rightarrow> string" where
  "join_slash [] = []"
| "join_slash [c] = c"
| "join_slash (c # d # cs) = c @ ''/'' @ join_slash (d # cs)"

text \<open>
  \<open>os.path.normpath\<close>: empty and \<open>.\<close> components are dropped, \<open>..\<close> removes the
  component before it where there is one to remove; exactly two leading slashes are kept.
\<close>

definition norm_step :: "bool \<Rightarrow> string list \<Rightarrow> string \<Rightarrow> string list" where
  "norm_step initial_slashes new_comps part =
     (if part = [] then new_comps
      else if part = ''.'' then new_comps
      else if part = ''..'' then
        (if new_comps = [] then (if initial_slashes then new_comps else new_comps @ [part])
         else if last new_comps = ''..'' then new_comps @ [part]
         else butlast new_comps)
      else new_comps @ [part])"

definition normpath :: "string \<Rightarrow> string" where
  "normpath path =
     (if path = [] then ''.''
      else
        let initial_slashes =
              (if take 1 path = ''/'' then
                 (if take 2 path = ''//'' \<and> take 3 path \<noteq> ''///'' then 2 else 1)
               else (0::nat));
            comps = foldl (norm_step (0 < initial_slashes)) [] (splitc (CHR ''/'') path);
            joined = replicate initial_slashes (CHR ''/'') @ join_slash comps
        in if joined = [] then ''.'' else joined)"

text \<open>\<open>os.path.abspath\<close>, with \<open>os.getcwd()\<close> given.\<close>

definition abspath :: "string \<Rightarrow> string \<Rightarrow> string" where
  "abspath cwd_dir path =
     normpath (if take 1 path = ''/'' then path else join cwd_dir path)"

section \<open>services/video\_service.py: state and environment\<close>

text \<open>
  What a temp or output file holds: an encoded segment clip with the frames it was built
  from, a concatenation of the files a list named, the list file itself, a partial
  output, or other bytes.
\<close>

datatype content =
    Clip "image list"
  | Movie "content option list"
  | ConcatList "string list"
  | Partial
  | Blob nat

text \<open>
  The fields of \<open>VideoService\<close> together with the file system.  \<open>history\<close> is a ghost
  log: the pair (progress, total\_segments) after every assignment to one of the two
  fields, so that properties of every intermediate state of a run can be stated.
\<close>

record world =
  stop_flag :: bool
  progress :: int
  total_segments :: int
  current_task :: "string option"
  files :: "string \<rightharpoonup> content"
  history :: "(int \<times> int) list"

text \<open>\<open>VideoService.__init__\<close> on a given file system.\<close>

definition init_service :: "(string \<rightharpoonup> content) \<Rightarrow> world" where
  "init_service fs =
     \<lparr>stop_flag = False, progress = 0, total_segments = 0, current_task = None,
      files = fs, history = [(0, 0)]\<rparr>"

definition log_progress :: "world \<Rightarrow> world" where
  "log_progress w = w\<lparr>history := history w @ [(progress w, total_segments w)]\<rparr>"

text \<open>
  The settings dictionary of a job after the overrides are laid over the defaults; the keys
  that only steer the external encoder (codec, threads, use\_cuda) are left out.
\<close>

record settings =
  chapter_path :: string
  resolution :: "int \<times> int"
  fps :: real
  batch_size :: int
  s_fade_duration :: real
  s_use_pan :: bool
  s_pan_range :: "real \<times> real"

record video_settings =
  o_resolution :: "(int \<times> int) option"
  o_fps :: "real option"
  o_batch_size :: "int option"
  o_fade_duration :: "real option"
  o_use_pan :: "bool option"
  o_pan_range :: "(real \<times> real) option"

text \<open>
  The service is one object shared by all requests, and a run gives up control at every
  \<open>await\<close>.  What other requests do to the shared fields in the meantime is a list of
  activities: a call of \<open>cancel_generation\<close>, or a step of another \<open>generate_video\<close> run
  (clearing the flag, resetting the counters, counting a finished segment, entering the
  merge, completing).
\<close>

datatype activity =
    Cancel
  | OtherClear
  | OtherReset int string
  | OtherSegmentDone
  | OtherMerging
  | OtherCompleted

text \<open>
  The places where a run awaits: the loading of a segment's resources, the rendering of
  frame \<open>i\<close> of a segment, the encoding of a segment, the end of batch \<open>k\<close>, the merge and
  the cleanup.
\<close>

datatype checkpoint =
    AwaitLoad string
  | AwaitFrame string nat
  | AwaitWrite string
  | AwaitGather nat
  | AwaitMerge
  | AwaitCleanup

text \<open>
  What \<open>_load_resources\<close> finds in a segment directory: the sizes of the two files where
  they exist, the decoded picture or the exception of \<open>Image.open\<close>, and the duration
  reported for the audio clip or the exception of \<open>AudioFileClip\<close>.
\<close>

record segment_dir =
  image_size :: "nat option"
  audio_size :: "nat option"
  picture :: "error + image"
  audio :: "error + real option"

datatype rm_result = Removed | Denied | OtherFailure

text \<open>
  Everything outside the run: the process id, the working directory, the clock, the
  chapter directory as \<open>os.listdir\<close> and \<open>os.path.isdir\<close> show it, the activities of other
  requests at each await, the encoder, ffmpeg, \<open>os.replace\<close>, the outcome of each deletion
  attempt, \<open>math.cos\<close>, and the Unicode database.
\<close>

record env =
  pid :: nat
  cpu_count :: int
  cwd :: string
  time_ns :: "string \<Rightarrow> nat"
  listdir :: "error + (string \<times> bool) list"
  segment :: "string \<Rightarrow> segment_dir"
  interference :: "checkpoint \<Rightarrow> activity list"
  encode_ok :: "string \<Rightarrow> image list \<Rightarrow> bool"
  ffmpeg_ok :: bool
  replace_ok :: bool
  remove_outcome :: "string \<Rightarrow> nat \<Rightarrow> rm_result"
  math_cos :: "real \<Rightarrow> real"
  unicode :: "nat \<Rightarrow> digit_class"

section \<open>services/video\_service.py: operations\<close>

text \<open>\<open>default_settings\<close> and the overlay \<open>{**default_settings, **video_settings}\<close>.\<close>

definition default_settings :: "env \<Rightarrow> string \<Rightarrow> settings" where
  "default_settings e cp =
     \<lparr>chapter_path = cp, resolution = (1024, 1024), fps = 20,
      batch_size = max 2 (cpu_count e div 2), s_fade_duration = 1, s_use_pan = True,
      s_pan_range = (0.5, 0.5)\<rparr>"

definition final_settings :: "env \<Rightarrow> string \<Rightarrow> video_settings option \<Rightarrow> settings" where
  "final_settings e cp vs =
     (let d = default_settings e cp in
      case vs of
        None \<Rightarrow> d
      | Some v \<Rightarrow>
          \<lparr>chapter_path = cp,
           resolution = get_or (o_resolution v) (resolution d),
           fps = get_or (o_fps v) (fps d),
           batch_size = get_or (o_batch_size v) (batch_size d),
           s_fade_duration = get_or (o_fade_duration v) (s_fade_duration d),
           s_use_pan = get_or (o_use_pan v) (s_use_pan d),
           s_pan_range = get_or (o_pan_range v) (s_pan_range d)\<rparr>)"

text \<open>\<open>cancel_generation\<close> sets the flag and acknowledges.\<close>

definition cancel_generation :: "world \<Rightarrow> bool \<times> world" where
  "cancel_generation w = (True, w\<lparr>stop_flag := True\<rparr>)"

text \<open>
  The effect of one activity of another request on the shared fields (lines 363, 190,
  209-212, 141, 253 and 265-266 of the service), and of all that happen at one await.
\<close>

fun act :: "activity \<Rightarrow> world \<Rightarrow> world" where
  "act Cancel w = snd (cancel_generation w)"
| "act OtherClear w = w\<lparr>stop_flag := False\<rparr>"
| "act (OtherReset n task) w =
     log_progress (w\<lparr>progress := 0, total_segments := n, current_task := Some task\<rparr>)"
| "act OtherSegmentDone w = log_progress (w\<lparr>progress := progress w + 1\<rparr>)"
| "act OtherMerging w = w\<lparr>current_task := Some ''Merging videos''\<rparr>"
| "act OtherCompleted w =
     log_progress (w\<lparr>current_task := Some ''Completed'', progress := total_segments w\<rparr>)"

definition poll :: "env \<Rightarrow> checkpoint \<Rightarrow> world \<Rightarrow> world" where
  "poll e c w = foldl (\<lambda>v a. act a v) w (interference e c)"

text \<open>
  \<open>get_progress\<close>.  The quotient of the two integers and its product with 100 are each
  rounded to a double; the division raises on zero.
\<close>

record snapshot =
  snap_progress :: int
  snap_total :: int
  snap_percentage :: int
  snap_current_task :: "string option"

definition get_progress :: "world \<Rightarrow> error + snapshot" where
  "get_progress w =
     (let total = max 1 (total_segments w) in
      if total = 0 then Inl ZeroDivisionError
      else
        let percentage =
              py_int (fl (fl (real_of_int (progress w) / real_of_int total) * 100))
        in Inr \<lparr>snap_progress = progress w, snap_total = total,
                snap_percentage = percentage, snap_current_task = current_task w\<rparr>)"

text \<open>
  \<open>_load_resources\<close>: both files are checked (the image first, existence before size),
  then the image is opened, then the audio, whose duration must be known and at least the
  double \<open>0.05\<close>.
\<close>

definition load_resources :: "segment_dir \<Rightarrow> string \<Rightarrow> error + (image \<times> real)" where
  "load_resources sd subdir_path =
     (let image_path = join subdir_path ''image.png'';
          audio_path = join subdir_path ''audio.mp3''
      in case image_size sd of
           None \<Rightarrow> Inl (FileNotFoundError (''File not found: '' @ image_path))
         | Some n \<Rightarrow>
             if n < 1024 then Inl (ValueError (''File too small: '' @ image_path))
             else
               (case audio_size sd of
                  None \<Rightarrow> Inl (FileNotFoundError (''File not found: '' @ audio_path))
                | Some m \<Rightarrow>
                    if m < 1024 then Inl (ValueError (''File too small: '' @ audio_path))
                    else
                      (case picture sd of
                         Inl err \<Rightarrow> Inl err
                       | Inr img \<Rightarrow>
                           (case audio sd of
                              Inl err \<Rightarrow> Inl err
                            | Inr None \<Rightarrow>
                                Inl (ValueError
                                  (''Audio file duration too short or invalid: ''
                                     @ audio_path))
                            | Inr (Some d) \<Rightarrow>
                                if d < fl (5 / 100) then
                                  Inl (ValueError
                                    (''Audio file duration too short or invalid: ''
                                       @ audio_path))
                                else Inr (img, d)))))"

text \<open>
  \<open>_apply_effects\<close>: builds the effect parameters and calls the effect chain; the
  segment index is \<open>int(subdir)\<close> for a digit name and 0 otherwise.
\<close>

definition service_apply_effects ::
    "env \<Rightarrow> settings \<Rightarrow> image \<Rightarrow> real \<Rightarrow> real \<Rightarrow> string \<Rightarrow> error + image" where
  "service_apply_effects e st img time_val duration subdir =
     (case (if isdigit (unicode e) subdir then str_int (unicode e) subdir else Inr 0) of
        Inl err \<Rightarrow> Inl err
      | Inr idx \<Rightarrow>
          apply_effects (math_cos e) img time_val duration
            \<lparr>output_size = Some (resolution st),
             fade_duration = Some (s_fade_duration st),
             use_pan = Some (s_use_pan st),
             pan_range = Some (s_pan_range st),
             segment_index = Some idx\<rparr>)"

text \<open>
  The two temp names at the head of \<open>_process_segment\<close>, from the temp directory, the
  segment id, \<open>os.getpid()\<close> and \<open>time.time_ns()\<close>.
\<close>

definition temp_names :: "string \<Rightarrow> string \<Rightarrow> nat \<Rightarrow> nat \<Rightarrow> string \<times> string" where
  "temp_names temp_dir subdir p now =
     (let temp_file = join temp_dir (''vid_'' @ subdir @ ''_'' @ str_nat p @ ''.mp4'');
          temp_audio_path =
            join (dirname temp_file)
              (''temp_audio_'' @ subdir @ ''_'' @ str_nat p @ ''_'' @ str_nat now @ ''.m4a'')
      in (temp_file, temp_audio_path))"

text \<open>
  The frame loop of \<open>_process_segment\<close>, for the frames \<open>i, i + 1, ..., i + k - 1\<close>: the
  flag is read before each frame and ends the loop; the frame is rendered in a worker
  while the run awaits it, at time \<open>i / fps\<close>; an exception of the effect chain leaves the
  function.  \<open>fps\<close> is not zero here, since the frame count is not.
\<close>

fun render_frames ::
    "env \<Rightarrow> settings \<Rightarrow> string \<Rightarrow> image \<Rightarrow> real \<Rightarrow> nat \<Rightarrow> nat \<Rightarrow> world
       \<Rightarrow> (error + image list) \<times> world" where
  "render_frames e st subdir img duration i 0 w = (Inr [], w)"
| "render_frames e st subdir img duration i (Suc k) w =
     (if stop_flag w then (Inr [], w)
      else
        let w1 = poll e (AwaitFrame subdir i) w in
        (case service_apply_effects e st img (fl (to_float (int i) / fps st)) duration subdir of
           Inl err \<Rightarrow> (Inl err, w1)
         | Inr frame \<Rightarrow>
             (case render_frames e st subdir img duration (Suc i) k w1 of
                (Inl err, w2) \<Rightarrow> (Inl err, w2)
              | (Inr frames, w2) \<Rightarrow> (Inr (frame # frames), w2))))"

text \<open>
  \<open>_write_temp_video\<close>: an image-sequence clip reads the first frame of the list, so an
  empty list raises \<open>IndexError\<close> before anything is written; otherwise the external encoder
  either fails, leaving nothing, or writes the clip and removes the intermediate audio
  file it used.
\<close>

definition write_temp_video ::
    "env \<Rightarrow> string \<Rightarrow> image list \<Rightarrow> string \<Rightarrow> string \<Rightarrow> world \<Rightarrow> (error + unit) \<times> world" where
  "write_temp_video e subdir frames output_path temp_audio_path w =
     (if frames = [] then (Inl IndexError, w)
      else if encode_ok e subdir frames then
        (Inr (), w\<lparr>files := (files w)(output_path \<mapsto> Clip frames, temp_audio_path := None)\<rparr>)
      else (Inl EncoderError, w))"

text \<open>
  \<open>_process_segment\<close>.  The frame count is \<open>int\<close> of the double product of duration and
  frame rate.
\<close>

definition process_segment ::
    "env \<Rightarrow> string \<Rightarrow> string \<Rightarrow> settings \<Rightarrow> world \<Rightarrow> (error + string \<times> string) \<times> world" where
  "process_segment e subdir temp_dir st w =
     (let (temp_file, temp_audio_path) = temp_names temp_dir subdir (pid e) (time_ns e subdir);
          w0 = poll e (AwaitLoad subdir) w
      in case load_resources (segment e subdir) (join (chapter_path st) subdir) of
           Inl err \<Rightarrow> (Inl err, w0)
         | Inr (img, duration) \<Rightarrow>
             let total_frames = py_int (fl (duration * fps st)) in
             if total_frames = 0 then
               (Inl (ValueError
                  (''Calculated total frames is 0, video duration too short. Subdir: ''
                     @ subdir)), w0)
             else
               (case render_frames e st subdir img duration 0 (nat total_frames) w0 of
                  (Inl err, w1) \<Rightarrow> (Inl err, w1)
                | (Inr frames, w1) \<Rightarrow>
                    (case write_temp_video e subdir frames temp_file temp_audio_path
                            (poll e (AwaitWrite subdir) w1) of
                       (Inl err, w2) \<Rightarrow> (Inl err, w2)
                     | (Inr u, w2) \<Rightarrow>
                         (Inr (temp_file, temp_audio_path),
                          log_progress (w2\<lparr>progress := progress w2 + 1\<rparr>)))))"

text \<open>
  The frame count a segment arrives at (the local \<open>total_frames\<close> of
  \<open>_process_segment\<close>), 0 when its resources do not load.
\<close>

definition total_frames :: "env \<Rightarrow> settings \<Rightarrow> string \<Rightarrow> int" where
  "total_frames e st subdir =
     (case load_resources (segment e subdir) (join (chapter_path st) subdir) of
        Inl err \<Rightarrow> 0
      | Inr (img, duration) \<Rightarrow> py_int (fl (duration * fps st)))"

text \<open>
  \<open>asyncio.gather(*tasks, return_exceptions=True)\<close> over one batch: every segment is run,
  an exception becomes that segment's result.  The coroutines are taken one after the other
  in list order.
\<close>

fun gather ::
    "env \<Rightarrow> settings \<Rightarrow> string \<Rightarrow> string list \<Rightarrow> world
       \<Rightarrow> (error + string \<times> string) list \<times> world" where
  "gather e st cp [] w = ([], w)"
| "gather e st cp (subdir # rest) w =
     (let (r, w1) = process_segment e subdir cp st w;
          (rs, w2) = gather e st cp rest w1
      in (r # rs, w2))"

text \<open>The loop over \<open>batch_results\<close>: failures are logged, successes are collected.\<close>

fun collect ::
    "(error + string \<times> string) list \<Rightarrow> string list \<Rightarrow> string list
       \<Rightarrow> string list \<times> string list" where
  "collect [] temp_video_files all_temp_files = (temp_video_files, all_temp_files)"
| "collect (Inl err # rs) temp_video_files all_temp_files =
     collect rs temp_video_files all_temp_files"
| "collect (Inr (video_path, audio_path) # rs) temp_video_files all_temp_files =
     collect rs (temp_video_files @ [video_path]) (all_temp_files @ [video_path, audio_path])"

text \<open>The slices \<open>subdirs[i:i+batch_size]\<close> for \<open>i\<close> in \<open>range(0, len(subdirs), batch_size)\<close>.\<close>

function batches :: "nat \<Rightarrow> 'a list \<Rightarrow> 'a list list" where
  "batches b xs = (if b = 0 \<or> xs = [] then [] else take b xs # batches b (drop b xs))"
  by pat_completeness auto
termination
  by (relation "measure (\<lambda>(b, xs). length xs)") auto

declare batches.simps [simp del]

text \<open>
  The batch loop of \<open>generate_video\<close> from batch number \<open>k\<close> on; the flag is read when the
  batch has been gathered.  It returns the two lists of temp files also when it raises,
  since the \<open>finally\<close> block needs them.
\<close>

fun run_batches ::
    "env \<Rightarrow> settings \<Rightarrow> string \<Rightarrow> string list list \<Rightarrow> nat \<Rightarrow> string list \<Rightarrow> string list
       \<Rightarrow> world \<Rightarrow> (error + string list) \<times> string list \<times> world" where
  "run_batches e st cp [] k temp_video_files all_temp_files w =
     (Inr temp_video_files, all_temp_files, w)"
| "run_batches e st cp (batch # rest) k temp_video_files all_temp_files w =
     (let (batch_results, w1) = gather e st cp batch w;
          w2 = poll e (AwaitGather k) w1;
          (tvf, atf) = collect batch_results temp_video_files all_temp_files
      in if stop_flag w2 then
           (Inl (ValueError ''Video generation cancelled by user''), atf, w2)
         else run_batches e st cp rest (Suc k) tvf atf w2)"

text \<open>\<open>os.remove\<close>, at the given attempt.\<close>

definition os_remove :: "env \<Rightarrow> string \<Rightarrow> nat \<Rightarrow> world \<Rightarrow> (error + unit) \<times> world" where
  "os_remove e f_path i w =
     (case remove_outcome e f_path i of
        Removed \<Rightarrow> (Inr (), w\<lparr>files := (files w)(f_path := None)\<rparr>)
      | Denied \<Rightarrow> (Inl PermissionError, w)
      | OtherFailure \<Rightarrow> (Inl OSError, w))"

text \<open>
  \<open>_cleanup_temp_files\<close>: up to three attempts per file; a \<open>PermissionError\<close> is retried,
  any other error is not, and no error leaves the function.
\<close>

fun remove_attempts :: "env \<Rightarrow> string \<Rightarrow> nat \<Rightarrow> nat \<Rightarrow> world \<Rightarrow> world" where
  "remove_attempts e f_path i 0 w = w"
| "remove_attempts e f_path i (Suc k) w =
     (case os_remove e f_path i w of
        (Inr u, w1) \<Rightarrow> w1
      | (Inl err, w1) \<Rightarrow>
          if err = PermissionError then remove_attempts e f_path (Suc i) k w1 else w1)"

fun cleanup_temp_files :: "env \<Rightarrow> string list \<Rightarrow> world \<Rightarrow> world" where
  "cleanup_temp_files e [] w = w"
| "cleanup_temp_files e (f_path # rest) w =
     cleanup_temp_files e rest
       (if files w f_path = None then w else remove_attempts e f_path 0 3 w)"

text \<open>
  \<open>_merge_videos\<close>: the list file is written with the absolute paths of the clips, ffmpeg
  concatenates the listed files into the temp output (leaving a partial file there when it
  fails), and \<open>os.replace\<close> moves the temp output over the destination.  The \<open>finally\<close>
  block then removes the list file and the temp output where they exist; these two
  \<open>os.remove\<close> calls are not guarded, so an exception of theirs replaces the outcome.
\<close>

definition merge_videos ::
    "env \<Rightarrow> string list \<Rightarrow> string \<Rightarrow> world \<Rightarrow> (error + string) \<times> world" where
  "merge_videos e temp_files output_path w =
     (let concat_list = join (dirname output_path) ''concat.txt'';
          (root, ext) = splitext output_path;
          temp_output_path = root @ ''.tmp_'' @ str_nat (pid e) @ ext;
          listed = map (\<lambda>f. map (\<lambda>c. if c = CHR 0x5C then CHR ''/'' else c)
                               (abspath (cwd e) f)) temp_files;
          w1 = w\<lparr>files := (files w)(concat_list \<mapsto> ConcatList listed)\<rparr>;
          (result, w2) =
            (if \<not> ffmpeg_ok e then
               (Inl CalledProcessError, w1\<lparr>files := (files w1)(temp_output_path \<mapsto> Partial)\<rparr>)
             else
               let w' = w1\<lparr>files := (files w1)
                          (temp_output_path \<mapsto> Movie (map (files w1) listed))\<rparr>
               in if \<not> replace_ok e then (Inl OSError, w')
                  else (Inr output_path,
                        w'\<lparr>files := (files w')
                              (output_path := files w' temp_output_path,
                               temp_output_path := None)\<rparr>))
      in case (if files w2 concat_list = None then (Inr (), w2)
               else os_remove e concat_list 0 w2) of
           (Inl err, w3) \<Rightarrow> (Inl err, w3)
         | (Inr u, w3) \<Rightarrow>
             (case (if files w3 temp_output_path = None then (Inr (), w3)
                    else os_remove e temp_output_path 0 w3) of
                (Inl err, w4) \<Rightarrow> (Inl err, w4)
              | (Inr u', w4) \<Rightarrow> (result, w4)))"

text \<open>
  The segment list of \<open>generate_video\<close>: the directories with digit names, sorted by
  \<open>int\<close> of the name; a name that \<open>int\<close> rejects makes the sort raise.
\<close>

definition list_subdirs :: "env \<Rightarrow> error + string list" where
  "list_subdirs e =
     (case listdir e of
        Inl err \<Rightarrow> Inl err
      | Inr names \<Rightarrow>
          let ds = map fst (filter (\<lambda>(d, is_dir). is_dir \<and> isdigit (unicode e) d) names)
          in case filter (\<lambda>d. isl (str_int (unicode e) d)) ds of
               [] \<Rightarrow> Inr (sort_key (\<lambda>d. projr (str_int (unicode e) d)) ds)
             | bad # _ \<Rightarrow> Inl (projl (str_int (unicode e) bad)))"

text \<open>
  The \<open>finally\<close> block of \<open>generate_video\<close>: when temp files were collected, their cleanup
  is awaited.
\<close>

definition finally_cleanup :: "env \<Rightarrow> string list \<Rightarrow> world \<Rightarrow> world" where
  "finally_cleanup e all_temp_files w =
     (if all_temp_files = [] then w
      else cleanup_temp_files e all_temp_files (poll e AwaitCleanup w))"

text \<open>
  \<open>generate_video\<close>.  Up to the first batch nothing is awaited; every exit passes through
  the \<open>finally\<close> block.
\<close>

definition generate_video ::
    "env \<Rightarrow> string \<Rightarrow> video_settings option \<Rightarrow> world \<Rightarrow> (error + string) \<times> world" where
  "generate_video e path vs w0 =
     (let cp = abspath (cwd e) path;
          w = w0\<lparr>stop_flag := False\<rparr>;
          st = final_settings e cp vs;
          output_path = join cp ''video.mp4''
      in case list_subdirs e of
           Inl err \<Rightarrow> (Inl err, w)
         | Inr subdirs \<Rightarrow>
             if subdirs = [] then (Inl (ValueError ''No valid video segments''), w)
             else
               let w1 = log_progress
                          (w\<lparr>progress := 0, total_segments := int (length subdirs),
                             current_task := Some (basename cp)\<rparr>)
               in if batch_size st = 0 then
                    (Inl (ValueError ''range() arg 3 must not be zero''), w1)
                  else
                    (case run_batches e st cp (batches (nat (batch_size st)) subdirs) 0 [] [] w1 of
                       (Inl err, atf, w2) \<Rightarrow> (Inl err, finally_cleanup e atf w2)
                     | (Inr tvf, atf, w2) \<Rightarrow>
                         if length tvf \<noteq> length subdirs then
                           (Inl (ValueError
                              ''Some video segments failed to generate, cannot merge. Check logs.''),
                            finally_cleanup e atf w2)
                         else if tvf = [] then
                           (Inl (ValueError ''No valid video segments generated''),
                            finally_cleanup e atf w2)
                         else
                           let w3 = poll e AwaitMerge
                                      (w2\<lparr>current_task := Some ''Merging videos''\<rparr>)
                           in
                           (case merge_videos e tvf output_path w3 of
                              (Inl err, w4) \<Rightarrow> (Inl err, finally_cleanup e atf w4)
                            | (Inr result, w4) \<Rightarrow>
                                (Inr result,
                                 finally_cleanup e atf
                                   (log_progress
                                      (w4\<lparr>current_task := Some ''Completed'',
                                          progress := total_segments w4\<rparr>))))))"

text \<open>
  The invariant of the progress counters: the completed count does not exceed the total, in
  the current state and in every logged one.
\<close>

definition within_total :: "world \<Rightarrow> bool" where
  "within_total w =
     (progress w \<le> total_segments w \<and> list_all (\<lambda>(p, t). p \<le> t) (history w))"

text \<open>
  A run that no other run of the service overlaps: the only activity of other requests
  during it are calls of \<open>cancel_generation\<close>.
\<close>

definition undisturbed :: "env \<Rightarrow> bool" where
  "undisturbed e = (\<forall>c. list_all (\<lambda>a. a = Cancel) (interference e c))"

text \<open>
  The flag is never cleared from outside: no other \<open>generate_video\<close> run starts while this
  one is under way.
\<close>

definition never_cleared :: "env \<Rightarrow> bool" where
  "never_cleared e = (\<forall>c. list_all (\<lambda>a. a \<noteq> OtherClear) (interference e c))"

text \<open>Nobody cancels during the run.\<close>

definition never_cancelled :: "env \<Rightarrow> bool" where
  "never_cancelled e = (\<forall>c. list_all (\<lambda>a. a \<noteq> Cancel) (interference e c))"

section \<open>A sample chapter\<close>

text \<open>
  The scenario used for the concrete instances below: the server runs in \<open>/srv\<close>, the
  chapter \<open>/ch\<close> holds the segment directories \<open>1\<close> (audio of 2.0 s) and \<open>2\<close> (audio of
  3.0 s) and one directory that is not a segment; the encoder, ffmpeg and every deletion
  succeed, and no other request arrives during the run.
\<close>

definition demo_segment :: "real \<Rightarrow> segment_dir" where
  "demo_segment d =
     \<lparr>image_size = Some 2048, audio_size = Some 4096, picture = Inr (Source 64 48),
      audio = Inr (Some d)\<rparr>"

definition demo_env :: env where
  "demo_env =
     \<lparr>pid = 4242, cpu_count = 4, cwd = ''/srv'', time_ns = (\<lambda>s. 1000),
      listdir = Inr [(''2'', True), (''1'', True), (''notes'', True)],
      segment = (\<lambda>s. if s = ''1'' then demo_segment 2 else demo_segment 3),
      interference = (\<lambda>c. []), encode_ok = (\<lambda>s frames. True),
      ffmpeg_ok = True, replace_ok = True, remove_outcome = (\<lambda>p i. Removed),
      math_cos = (\<lambda>x. fl (cos x)), unicode = (\<lambda>c. NotDigit)\<rparr>"

definition demo_settings :: "real \<Rightarrow> settings" where
  "demo_settings f =
     \<lparr>chapter_path = ''/ch'', resolution = (32, 32), fps = f, batch_size = 2,
      s_fade_duration = 0, s_use_pan = False, s_pan_range = (0, 0)\<rparr>"

text \<open>
  Caller overrides that switch the pan and the fade off and set the frame rate; laid over
  the defaults for the sample chapter they give \<open>demo_settings\<close>.
\<close>

definition demo_overrides :: "real \<Rightarrow> video_settings" where
  "demo_overrides f =
     \<lparr>o_resolution = Some (32, 32), o_fps = Some f, o_batch_size = Some 2,
      o_fade_duration = Some 0, o_use_pan = Some False, o_pan_range = Some (0, 0)\<rparr>"

text \<open>
  The same chapter with two short segments (audio of 0.125 s each, two frames at 16 frames
  per second) and the given activity of other requests.
\<close>

definition short_env :: "(checkpoint \<Rightarrow> activity list) \<Rightarrow> env" where
  "short_env acts =
     demo_env\<lparr>segment := (\<lambda>s. demo_segment (1 / 8)), interference := acts\<rparr>"

text \<open>
  A cancellation request that arrives while frame 0 of segment \<open>2\<close> is rendered, and
  another \<open>generate_video\<close> call that starts while the batch is awaited.
\<close>

definition cancel_then_restart :: "checkpoint \<Rightarrow> activity list" where
  "cancel_then_restart c =
     (if c = AwaitFrame ''2'' 0 then [Cancel]
      else if c = AwaitGather 0 then [OtherClear]
      else [])"

text \<open>
  Another \<open>generate_video\<close> call, for a chapter \<open>other\<close> of one segment, that starts while
  the resources of segment \<open>1\<close> are loaded.
\<close>

definition overlapping_start :: "checkpoint \<Rightarrow> activity list" where
  "overlapping_start c =
     (if c = AwaitLoad ''1'' then [OtherClear, OtherReset 1 ''other''] else [])"

text \<open>No other request arrives.\<close>

definition no_activity :: "checkpoint \<Rightarrow> activity list" where
  "no_activity c = []"

text \<open>The list file of the merge cannot be deleted.\<close>

definition locked_list_env :: env where
  "locked_list_env =
     (short_env no_activity)
       \<lparr>remove_outcome := (\<lambda>p i. if p = ''/ch/concat.txt'' then Denied else Removed)\<rparr>"

text \<open>A cancellation request that arrives at the given await of the sample chapter.\<close>

definition cancel_at :: "checkpoint \<Rightarrow> env" where
  "cancel_at c = demo_env\<lparr>interference := (\<lambda>x. if x = c then [Cancel] else [])\<rparr>"

section \<open>Properties of the image effects\<close>

lemma py_int_nonneg: "0 \<le> x \<Longrightarrow> py_int x = \<lfloor>x\<rfloor>"
  by (simp add: py_int_def)

text \<open>
  C6: \<open>fade_effect\<close> returns the image unchanged when the fade duration is missing or not
  positive.  Otherwise the image is scaled in brightness by \<open>time_val / fade_duration\<close>
  during the first \<open>fade_duration\<close> seconds (so by 0 at time 0, also when the two ramps
  overlap), is left unchanged (multiplier 1) between the ramps, and is scaled by
  \<open>(duration - time_val) / fade_duration\<close> during the last \<open>fade_duration\<close> seconds.
\<close>

theorem fade_effect_brightness:
  "(get_or (fade_duration p) 0 \<le> 0 \<longrightarrow> fade_effect img t d p = img) \<and>
   (fade_duration p = Some fd \<and> 0 < fd \<longrightarrow>
      (t < fd \<longrightarrow> fade_effect img t d p = Brightness img (t / fd)) \<and>
      (fd \<le> t \<and> fd \<le> d - t \<longrightarrow> fade_effect img t d p = img) \<and>
      (fd \<le> t \<and> d - t < fd \<longrightarrow> fade_effect img t d p = Brightness img ((d - t) / fd)))"
  by (auto simp: fade_effect_def get_or_def Let_def)

theorem fade_effect_brightness_witness:
  "fade_effect (Source 4 3) 0 10 \<lparr>output_size = None, fade_duration = Some 1, use_pan = None,
       pan_range = None, segment_index = None\<rparr> = Brightness (Source 4 3) 0
   \<and> fade_effect (Source 4 3) 5 10 \<lparr>output_size = None, fade_duration = Some 1, use_pan = None,
       pan_range = None, segment_index = None\<rparr> = Source 4 3
   \<and> fade_effect (Source 4 3) (19/2) 10 \<lparr>output_size = None, fade_duration = Some 1, use_pan = None,
       pan_range = None, segment_index = None\<rparr> = Brightness (Source 4 3) (1/2)
   \<and> fade_effect (Source 4 3) 0 10 \<lparr>output_size = None, fade_duration = None, use_pan = None,
       pan_range = None, segment_index = None\<rparr> = Source 4 3"
  using fade_effect_brightness [of "\<lparr>output_size = None, fade_duration = Some 1, use_pan = None,
       pan_range = None, segment_index = None\<rparr>" "Source 4 3" 0 10 1]
    fade_effect_brightness [of "\<lparr>output_size = None, fade_duration = Some 1, use_pan = None,
       pan_range = None, segment_index = None\<rparr>" "Source 4 3" 5 10 1]
    fade_effect_brightness [of "\<lparr>output_size = None, fade_duration = Some 1, use_pan = None,
       pan_range = None, segment_index = None\<rparr>" "Source 4 3" "19/2" 10 1]
    fade_effect_brightness [of "\<lparr>output_size = None, fade_duration = None, use_pan = None,
       pan_range = None, segment_index = None\<rparr>" "Source 4 3" 0 10 1]
  by (simp add: get_or_def)

text \<open>
  C7 fails on the code for a source of 1152 by 896 pixels and an output of the same size,
  with both pan ranges zero.  The aspect ratios are equal, so the second branch computes the
  new height as \<open>int(1152 / (1152 / 896))\<close>; the quotient \<open>1152 / 896\<close> is rounded to a
  double, the second quotient falls just below 896 and \<open>int\<close> truncates it to 895.  The
  source is resized to 1152 by 895, which is not a uniform scaling and does not cover the
  output, and the crop window starts one row above the resized image.  In exact arithmetic
  the new height is 896.
\<close>

theorem pan_effect_center_crop_short_by_one_row:
  "pan_effect mcos (Source 1152 896) t d
     \<lparr>output_size = Some (1152, 896), fade_duration = None, use_pan = None,
      pan_range = Some (0, 0), segment_index = None\<rparr>
     = Inr (Crop (Resize (Source 1152 896) 1152 895) 0 (- 1) 1152 895)
   \<and> py_int (1152 / (1152 / 896)) = 896"
proof -
  have h: "py_int (fl (fl 1152 / fl (9 / 7))) = 895" "fl (9 / 7) \<noteq> 0"
    by (simp_all add: fl_def expo.simps rne_def pow2_def Let_def py_int_def)
  have e: "py_int 896 = 896" by (simp add: py_int_def)
  show ?thesis
    by (simp add: pan_effect_def get_or_def use_horizontal_def Let_def to_float_def h e)
qed

text \<open>
  C8 fails on the code for a source of 1216 by 832 pixels, an output of 1080 by 1920, pan
  ranges (0.5, 0.5) and an even segment index.  The pan is horizontal and the scale factor
  is \<open>max (1620 / 1216) (1920 / 832)\<close>, the double nearest to \<open>1920 / 832\<close>; the scaled
  height \<open>int(832 * scale)\<close> is 1919, one row less than the output, so the scaled image does
  not cover the output and the window on the perpendicular axis starts at row -1 instead of
  being centred inside the image.  This holds at every time and for every cosine.
\<close>

theorem pan_effect_scaled_height_short_by_one_row:
  "pan_effect mcos (Source 1216 832) t 1
     \<lparr>output_size = Some (1080, 1920), fade_duration = None, use_pan = None,
      pan_range = Some (1 / 2, 1 / 2), segment_index = Some 0\<rparr>
     = (let x = py_int (fl (1726 * ease_in_out_progress mcos (fl t)))
        in Inr (Crop (Resize (Source 1216 832) 2806 1919) x (- 1) (x + 1080) 1919))
   \<and> py_int (832 * (1920 / 832)) = 1920"
proof -
  have s: "max (fl (fl (fl 1080 * fl (3 / 2)) / fl 1216)) (fl (30 / 13)) = fl (30 / 13)"
    by (simp add: fl_def expo.simps rne_def pow2_def Let_def)
  have w: "py_int (fl (fl 1216 * fl (30 / 13))) = 2806"
    by (simp add: fl_def expo.simps rne_def pow2_def Let_def py_int_def)
  have h: "py_int (fl (fl 832 * fl (30 / 13))) = 1919"
    by (simp add: fl_def expo.simps rne_def pow2_def Let_def py_int_def)
  have f: "fl 1726 = 1726"
    by (simp add: fl_def expo.simps rne_def pow2_def Let_def)
  have e: "py_int 1920 = 1920" by (simp add: py_int_def)
  show ?thesis
    by (simp add: pan_effect_def get_or_def use_horizontal_def Let_def to_float_def s w h f e)
qed

section \<open>Properties of the service\<close>

text \<open>
  C10: \<open>get_progress\<close> never raises: it divides by \<open>max 1 total_segments\<close>, which is not
  zero, reports that value as the total, and the percentage is \<open>int\<close> of the double
  \<open>(progress / total) * 100\<close>.  Before any job has run the total is 0 and the snapshot shows
  total 1 and percentage 0.
\<close>

theorem get_progress_never_divides_by_zero:
  "get_progress w =
     Inr \<lparr>snap_progress = progress w, snap_total = max 1 (total_segments w),
          snap_percentage =
            py_int (fl (fl (real_of_int (progress w)
                              / real_of_int (max 1 (total_segments w))) * 100)),
          snap_current_task = current_task w\<rparr>
   \<and> get_progress w \<noteq> Inl ZeroDivisionError
   \<and> total_segments (init_service fs) = 0
   \<and> get_progress (init_service fs) =
       Inr \<lparr>snap_progress = 0, snap_total = 1, snap_percentage = 0, snap_current_task = None\<rparr>"
proof -
  have z: "fl 0 = 0" by (simp add: fl_def)
  have m: "max 1 (total_segments w) \<noteq> 0" by simp
  have a: "get_progress w =
     Inr \<lparr>snap_progress = progress w, snap_total = max 1 (total_segments w),
          snap_percentage =
            py_int (fl (fl (real_of_int (progress w)
                              / real_of_int (max 1 (total_segments w))) * 100)),
          snap_current_task = current_task w\<rparr>"
    unfolding get_progress_def Let_def using m by (simp only: if_False)
  have b: "get_progress (init_service fs) =
       Inr \<lparr>snap_progress = 0, snap_total = 1, snap_percentage = 0, snap_current_task = None\<rparr>"
    by (simp add: get_progress_def Let_def init_service_def z py_int_def)
  show ?thesis using a b by (simp add: init_service_def)
qed

text \<open>
  C4 fails on the code for the temp video name: it is built from the directory, the segment
  id and the process id only, so two runs of the same segment in one process at different
  clock readings get the same video name, while their audio names differ.
\<close>

theorem temp_video_name_ignores_clock:
  "temp_names ''/p/ch'' ''1'' 4242 1000
     = (''/p/ch/vid_1_4242.mp4'', ''/p/ch/temp_audio_1_4242_1000.m4a'')
   \<and> temp_names ''/p/ch'' ''1'' 4242 2000
     = (''/p/ch/vid_1_4242.mp4'', ''/p/ch/temp_audio_1_4242_2000.m4a'')"
  by (simp add: temp_names_def Let_def join_def dirname_def str_nat.simps digit_char_def)

text \<open>The sample chapter, evaluated step by step.\<close>

lemma demo_abspath:
  "abspath ''/srv'' ''/ch'' = ''/ch''"
  "abspath ''/srv'' ''/ch/vid_1_4242.mp4'' = ''/ch/vid_1_4242.mp4''"
  "abspath ''/srv'' ''/ch/vid_2_4242.mp4'' = ''/ch/vid_2_4242.mp4''"
  by (simp_all add: abspath_def normpath_def norm_step_def join_def)

lemma demo_names:
  "temp_names ''/ch'' ''1'' 4242 1000
     = (''/ch/vid_1_4242.mp4'', ''/ch/temp_audio_1_4242_1000.m4a'')"
  "temp_names ''/ch'' ''2'' 4242 1000
     = (''/ch/vid_2_4242.mp4'', ''/ch/temp_audio_2_4242_1000.m4a'')"
  "join ''/ch'' ''video.mp4'' = ''/ch/video.mp4''"
  "join (dirname ''/ch/video.mp4'') ''concat.txt'' = ''/ch/concat.txt''"
  "splitext ''/ch/video.mp4'' = (''/ch/video'', ''.mp4'')"
  "str_nat 4242 = ''4242''"
  "basename ''/ch'' = ''ch''"
  by (simp_all add: temp_names_def join_def dirname_def splitext_def rfind_def Let_def
        str_nat.simps digit_char_def basename_def)

lemma demo_subdirs:
  "list_subdirs demo_env = Inr [''1'', ''2'']"
  "list_subdirs (short_env acts) = Inr [''1'', ''2'']"
  "list_subdirs locked_list_env = Inr [''1'', ''2'']"
  "list_subdirs (cancel_at c) = Inr [''1'', ''2'']"
  by (simp_all add: list_subdirs_def short_env_def locked_list_env_def cancel_at_def
        demo_env_def isdigit_def str_int_def utf8_decode.simps char_class_def
        decimal_value_def)

lemma demo_final_settings:
  "final_settings e ''/ch'' (Some (demo_overrides f)) = demo_settings f"
  by (simp add: final_settings_def demo_overrides_def demo_settings_def get_or_def
        default_settings_def)

lemma demo_batches: "batches 2 [a, b] = [[a, b]]"
  by (simp add: batches.simps [of 2 "[a, b]"] batches.simps [of 2 "[]"])

lemma demo_batch_size: "batch_size (demo_settings f) = 2"
  by (simp add: demo_settings_def)

lemma short_env_fields:
  "cwd (short_env acts) = ''/srv''" "pid (short_env acts) = 4242"
  "time_ns (short_env acts) s = 1000"
  "interference (short_env acts) = acts" "encode_ok (short_env acts) s fs"
  "ffmpeg_ok (short_env acts)" "replace_ok (short_env acts)"
  "remove_outcome (short_env acts) p i = Removed"
  by (simp_all add: short_env_def demo_env_def)

lemma locked_list_env_fields:
  "cwd locked_list_env = ''/srv''" "pid locked_list_env = 4242"
  "time_ns locked_list_env s = 1000"
  "interference locked_list_env = no_activity" "encode_ok locked_list_env s fs"
  "ffmpeg_ok locked_list_env" "replace_ok locked_list_env"
  "remove_outcome locked_list_env p i = (if p = ''/ch/concat.txt'' then Denied else Removed)"
  by (simp_all add: locked_list_env_def short_env_def demo_env_def)

lemma short_load:
  "load_resources (segment (short_env acts) s) (join (chapter_path (demo_settings f)) s)
     = Inr (Source 64 48, 1 / 8)"
  "load_resources (segment locked_list_env s) (join (chapter_path (demo_settings f)) s)
     = Inr (Source 64 48, 1 / 8)"
  by (simp_all add: load_resources_def short_env_def locked_list_env_def demo_env_def
        demo_segment_def Let_def fl_def expo.simps rne_def pow2_def)

lemma short_frames: "py_int (fl (fps (demo_settings 16) / 8)) = 2"
  by (simp add: demo_settings_def fl_def expo.simps rne_def pow2_def Let_def py_int_def)

lemma demo_effects:
  "unicode e = unicode demo_env \<Longrightarrow>
   service_apply_effects e (demo_settings f) img t d ''1'' = Inr img"
  "unicode e = unicode demo_env \<Longrightarrow>
   service_apply_effects e (demo_settings f) img t d ''2'' = Inr img"
  by (simp_all add: service_apply_effects_def apply_effects_def fade_effect_def get_or_def
        demo_settings_def demo_env_def isdigit_def str_int_def
        utf8_decode.simps char_class_def decimal_value_def)

lemma short_effects:
  "service_apply_effects (short_env acts) (demo_settings f) img t d ''1'' = Inr img"
  "service_apply_effects (short_env acts) (demo_settings f) img t d ''2'' = Inr img"
  "service_apply_effects locked_list_env (demo_settings f) img t d ''1'' = Inr img"
  "service_apply_effects locked_list_env (demo_settings f) img t d ''2'' = Inr img"
  by (simp_all add: demo_effects short_env_def locked_list_env_def)

lemma remove_attempts_removed:
  "remove_outcome e f_path 0 = Removed \<Longrightarrow>
   remove_attempts e f_path 0 3 w = w\<lparr>files := (files w)(f_path := None)\<rparr>"
  by (simp add: numeral_3_eq_3 os_remove_def)

lemmas short_run =
  process_segment_def demo_names short_load short_frames short_effects Let_def
  numeral_2_eq_2 write_temp_video_def poll_def short_env_fields locked_list_env_fields
  cancel_generation_def log_progress_def

lemmas short_job =
  generate_video_def demo_abspath short_env_fields locked_list_env_fields demo_subdirs
  demo_final_settings Let_def demo_batches demo_names init_service_def log_progress_def
  demo_batch_size merge_videos_def finally_cleanup_def os_remove_def poll_def
  cancel_generation_def remove_attempts_removed

lemma short_total_frames: "total_frames (short_env acts) (demo_settings 16) s = 2"
  by (simp add: total_frames_def short_load short_frames)

lemma cancel_then_restart_batches:
  "run_batches (short_env cancel_then_restart) (demo_settings 16) ''/ch'' [[''1'', ''2'']] 0 [] []
      \<lparr>stop_flag = False, progress = 0, total_segments = 2,
         current_task = Some ''ch'', files = Map.empty, history = [(0, 0), (0, 2)]\<rparr>
   = (Inr [''/ch/vid_1_4242.mp4'', ''/ch/vid_2_4242.mp4''],
      [''/ch/vid_1_4242.mp4'', ''/ch/temp_audio_1_4242_1000.m4a'',
       ''/ch/vid_2_4242.mp4'', ''/ch/temp_audio_2_4242_1000.m4a''],
      \<lparr>stop_flag = False, progress = 2, total_segments = 2,
         current_task = Some ''ch'',
         files =
           [''/ch/vid_1_4242.mp4'' \<mapsto> Clip [Source 64 48, Source 64 48],
            ''/ch/vid_2_4242.mp4'' \<mapsto> Clip [Source 64 48]],
         history = [(0, 0), (0, 2), (1, 2), (2, 2)]\<rparr>)"
  by (simp add: short_run cancel_then_restart_def)

lemma cancel_then_restart_job:
  "generate_video (short_env cancel_then_restart) ''/ch'' (Some (demo_overrides 16))
     (init_service Map.empty)
   = (Inr ''/ch/video.mp4'',
      \<lparr>stop_flag = False, progress = 2, total_segments = 2,
         current_task = Some ''Completed'',
         files =
           [''/ch/video.mp4'' \<mapsto>
              Movie [Some (Clip [Source 64 48, Source 64 48]), Some (Clip [Source 64 48])]],
         history = [(0, 0), (0, 2), (1, 2), (2, 2), (2, 2)]\<rparr>)"
  by (simp add: short_job cancel_then_restart_batches cancel_then_restart_def
        del: run_batches.simps)

lemma cancelled_segment:
  "process_segment (short_env cancel_then_restart) ''2'' ''/ch'' (demo_settings 16)
     (init_service Map.empty)
   = (Inr (''/ch/vid_2_4242.mp4'', ''/ch/temp_audio_2_4242_1000.m4a''),
      \<lparr>stop_flag = True, progress = 1, total_segments = 0, current_task = None,
         files = [''/ch/vid_2_4242.mp4'' \<mapsto> Clip [Source 64 48]],
         history = [(0, 0), (1, 0)]\<rparr>)"
  by (simp add: short_run cancel_then_restart_def init_service_def)

text \<open>
  C1 fails on the code.  Segment \<open>2\<close> of the sample chapter has two frames, and a
  cancellation request arrives while its frame 0 is rendered.  The loop reads the flag
  before frame 1 and stops, but the segment does not discard what it has: it encodes the
  one frame into its temp clip, counts itself as completed and returns the clip for the
  merge.  Only the job's check after the batch stands between that clip and the merge, and
  it reads the shared flag once: when another \<open>generate_video\<close> call has started in the
  meantime and cleared the flag, the job goes on and the merged video holds the truncated
  clip.
\<close>

theorem truncated_clip_is_returned_and_merged:
  "total_frames (short_env cancel_then_restart) (demo_settings 16) ''2'' = 2
   \<and> fst (process_segment (short_env cancel_then_restart) ''2'' ''/ch'' (demo_settings 16)
          (init_service Map.empty))
       = Inr (''/ch/vid_2_4242.mp4'', ''/ch/temp_audio_2_4242_1000.m4a'')
   \<and> files (snd (process_segment (short_env cancel_then_restart) ''2'' ''/ch''
          (demo_settings 16) (init_service Map.empty))) ''/ch/vid_2_4242.mp4''
       = Some (Clip [Source 64 48])
   \<and> progress (snd (process_segment (short_env cancel_then_restart) ''2'' ''/ch''
          (demo_settings 16) (init_service Map.empty))) = 1
   \<and> fst (generate_video (short_env cancel_then_restart) ''/ch'' (Some (demo_overrides 16))
          (init_service Map.empty)) = Inr ''/ch/video.mp4''
   \<and> files (snd (generate_video (short_env cancel_then_restart) ''/ch''
          (Some (demo_overrides 16)) (init_service Map.empty))) ''/ch/video.mp4''
       = Some (Movie [Some (Clip [Source 64 48, Source 64 48]), Some (Clip [Source 64 48])])"
  by (simp add: short_total_frames cancelled_segment cancel_then_restart_job)

lemma locked_list_batches:
  "run_batches locked_list_env (demo_settings 16) ''/ch'' [[''1'', ''2'']] 0 [] []
      \<lparr>stop_flag = False, progress = 0, total_segments = 2,
         current_task = Some ''ch'', files = [''/ch/video.mp4'' \<mapsto> Blob 7],
         history = [(0, 0), (0, 2)]\<rparr>
   = (Inr [''/ch/vid_1_4242.mp4'', ''/ch/vid_2_4242.mp4''],
      [''/ch/vid_1_4242.mp4'', ''/ch/temp_audio_1_4242_1000.m4a'',
       ''/ch/vid_2_4242.mp4'', ''/ch/temp_audio_2_4242_1000.m4a''],
      \<lparr>stop_flag = False, progress = 2, total_segments = 2,
         current_task = Some ''ch'',
         files =
           [''/ch/video.mp4'' \<mapsto> Blob 7,
            ''/ch/vid_1_4242.mp4'' \<mapsto> Clip [Source 64 48, Source 64 48],
            ''/ch/vid_2_4242.mp4'' \<mapsto> Clip [Source 64 48, Source 64 48]],
         history = [(0, 0), (0, 2), (1, 2), (2, 2)]\<rparr>)"
  by (simp add: short_run no_activity_def)

lemma locked_list_job:
  "generate_video locked_list_env ''/ch'' (Some (demo_overrides 16))
     (init_service [''/ch/video.mp4'' \<mapsto> Blob 7])
   = (Inl PermissionError,
      \<lparr>stop_flag = False, progress = 2, total_segments = 2,
         current_task = Some ''Merging videos'',
         files =
           [''/ch/concat.txt'' \<mapsto>
              ConcatList [''/ch/vid_1_4242.mp4'', ''/ch/vid_2_4242.mp4''],
            ''/ch/video.mp4'' \<mapsto>
              Movie [Some (Clip [Source 64 48, Source 64 48]),
                     Some (Clip [Source 64 48, Source 64 48])]],
         history = [(0, 0), (0, 2), (1, 2), (2, 2)]\<rparr>)"
  by (simp add: short_job locked_list_batches no_activity_def del: run_batches.simps)

text \<open>
  C2 fails on the code.  In the sample chapter with an older \<open>video.mp4\<close> in place, both
  segments render, ffmpeg succeeds and \<open>os.replace\<close> moves the merged file over
  \<open>video.mp4\<close>.  The \<open>finally\<close> block of \<open>_merge_videos\<close> then deletes the list file with
  a bare \<open>os.remove\<close>; when that raises (the file is still held by another process, the
  case \<open>_cleanup_temp_files\<close> retries for), the exception leaves \<open>_merge_videos\<close> and
  \<open>generate_video\<close>: the job has failed, and \<open>video.mp4\<close> is no longer the file that was
  there before.
\<close>

theorem failed_job_has_replaced_output:
  "files (init_service [''/ch/video.mp4'' \<mapsto> Blob 7]) ''/ch/video.mp4'' = Some (Blob 7)
   \<and> fst (generate_video locked_list_env ''/ch'' (Some (demo_overrides 16))
          (init_service [''/ch/video.mp4'' \<mapsto> Blob 7])) = Inl PermissionError
   \<and> files (snd (generate_video locked_list_env ''/ch'' (Some (demo_overrides 16))
          (init_service [''/ch/video.mp4'' \<mapsto> Blob 7]))) ''/ch/video.mp4''
       = Some (Movie [Some (Clip [Source 64 48, Source 64 48]),
                      Some (Clip [Source 64 48, Source 64 48])])"
  unfolding locked_list_job by (simp add: init_service_def)

lemma overlapping_start_batches:
  "run_batches (short_env overlapping_start) (demo_settings 16) ''/ch'' [[''1'', ''2'']] 0 [] []
      \<lparr>stop_flag = False, progress = 0, total_segments = 2,
         current_task = Some ''ch'', files = Map.empty, history = [(0, 0), (0, 2)]\<rparr>
   = (Inr [''/ch/vid_1_4242.mp4'', ''/ch/vid_2_4242.mp4''],
      [''/ch/vid_1_4242.mp4'', ''/ch/temp_audio_1_4242_1000.m4a'',
       ''/ch/vid_2_4242.mp4'', ''/ch/temp_audio_2_4242_1000.m4a''],
      \<lparr>stop_flag = False, progress = 2, total_segments = 1,
         current_task = Some ''other'',
         files =
           [''/ch/vid_1_4242.mp4'' \<mapsto> Clip [Source 64 48, Source 64 48],
            ''/ch/vid_2_4242.mp4'' \<mapsto> Clip [Source 64 48, Source 64 48]],
         history = [(0, 0), (0, 2), (0, 1), (1, 1), (2, 1)]\<rparr>)"
  by (simp add: short_run overlapping_start_def)

lemma overlapping_start_job:
  "generate_video (short_env overlapping_start) ''/ch'' (Some (demo_overrides 16))
     (init_service Map.empty)
   = (Inr ''/ch/video.mp4'',
      \<lparr>stop_flag = False, progress = 1, total_segments = 1,
         current_task = Some ''Completed'',
         files =
           [''/ch/video.mp4'' \<mapsto>
              Movie [Some (Clip [Source 64 48, Source 64 48]),
                     Some (Clip [Source 64 48, Source 64 48])]],
         history = [(0, 0), (0, 2), (0, 1), (1, 1), (2, 1), (1, 1)]\<rparr>)"
  by (simp add: short_job overlapping_start_batches overlapping_start_def
        del: run_batches.simps)

text \<open>
  C9 fails on the code.  The counters belong to the one service object, not to a job, and
  nothing keeps a second \<open>generate_video\<close> call from starting while a first one awaits.
  In the sample chapter (two segments) a second call for a chapter of one segment starts
  while segment \<open>1\<close> loads: it sets the completed count to 0 and the total to 1.  The two
  segments of the first job then each add one under the lock, and after the batch the
  service holds completed 2 of total 1, which \<open>get_progress\<close> reports as 200 percent.
\<close>

theorem overlapping_jobs_exceed_total:
  "within_total (init_service Map.empty)
   \<and> snd (snd (run_batches (short_env overlapping_start) (demo_settings 16) ''/ch''
          [[''1'', ''2'']] 0 [] []
          \<lparr>stop_flag = False, progress = 0, total_segments = 2,
             current_task = Some ''ch'', files = Map.empty, history = [(0, 0), (0, 2)]\<rparr>))
       = \<lparr>stop_flag = False, progress = 2, total_segments = 1,
           current_task = Some ''other'',
           files =
             [''/ch/vid_1_4242.mp4'' \<mapsto> Clip [Source 64 48, Source 64 48],
              ''/ch/vid_2_4242.mp4'' \<mapsto> Clip [Source 64 48, Source 64 48]],
           history = [(0, 0), (0, 2), (0, 1), (1, 1), (2, 1)]\<rparr>
   \<and> get_progress
         \<lparr>stop_flag = False, progress = 2, total_segments = 1,
           current_task = Some ''other'',
           files =
             [''/ch/vid_1_4242.mp4'' \<mapsto> Clip [Source 64 48, Source 64 48],
              ''/ch/vid_2_4242.mp4'' \<mapsto> Clip [Source 64 48, Source 64 48]],
           history = [(0, 0), (0, 2), (0, 1), (1, 1), (2, 1)]\<rparr>
       = Inr \<lparr>snap_progress = 2, snap_total = 1, snap_percentage = 200,
              snap_current_task = Some ''other''\<rparr>
   \<and> history (snd (generate_video (short_env overlapping_start) ''/ch''
          (Some (demo_overrides 16)) (init_service Map.empty)))
       = [(0, 0), (0, 2), (0, 1), (1, 1), (2, 1), (1, 1)]
   \<and> \<not> within_total (snd (generate_video (short_env overlapping_start) ''/ch''
          (Some (demo_overrides 16)) (init_service Map.empty)))"
proof -
  have p: "py_int (fl (fl 2 * 100)) = 200"
    by (simp add: fl_def expo.simps rne_def pow2_def Let_def py_int_def)
  show ?thesis
    unfolding overlapping_start_batches overlapping_start_job
    by (simp add: within_total_def init_service_def get_progress_def Let_def p)
qed

lemma quiet_batches:
  "run_batches (short_env no_activity) (demo_settings 16) ''/ch'' [[''1'', ''2'']] 0 [] []
      \<lparr>stop_flag = False, progress = 0, total_segments = 2,
         current_task = Some ''ch'', files = Map.empty, history = [(0, 0), (0, 2)]\<rparr>
   = (Inr [''/ch/vid_1_4242.mp4'', ''/ch/vid_2_4242.mp4''],
      [''/ch/vid_1_4242.mp4'', ''/ch/temp_audio_1_4242_1000.m4a'',
       ''/ch/vid_2_4242.mp4'', ''/ch/temp_audio_2_4242_1000.m4a''],
      \<lparr>stop_flag = False, progress = 2, total_segments = 2,
         current_task = Some ''ch'',
         files =
           [''/ch/vid_1_4242.mp4'' \<mapsto> Clip [Source 64 48, Source 64 48],
            ''/ch/vid_2_4242.mp4'' \<mapsto> Clip [Source 64 48, Source 64 48]],
         history = [(0, 0), (0, 2), (1, 2), (2, 2)]\<rparr>)"
  by (simp add: short_run no_activity_def)

lemma quiet_job_after_cancel:
  "generate_video (short_env no_activity) ''/ch'' (Some (demo_overrides 16))
     (snd (cancel_generation (init_service Map.empty)))
   = (Inr ''/ch/video.mp4'',
      \<lparr>stop_flag = False, progress = 2, total_segments = 2,
         current_task = Some ''Completed'',
         files =
           [''/ch/video.mp4'' \<mapsto>
              Movie [Some (Clip [Source 64 48, Source 64 48]),
                     Some (Clip [Source 64 48, Source 64 48])]],
         history = [(0, 0), (0, 2), (1, 2), (2, 2), (2, 2)]\<rparr>)"
  by (simp add: short_job quiet_batches no_activity_def del: run_batches.simps)

end
